theory Spec2Isabelle
  imports Main "HOL-Library.Sublist"
begin

section \<open>Website Summarizer: the summarization pipeline of app.py\<close>

text \<open>
  A shallow embedding of \<^verbatim>\<open>src/app.py\<close>. A Python \<^verbatim>\<open>str\<close> is a \<open>string\<close>, one
  \<open>char\<close> per code point (the code points below 256), so \<open>length\<close> and \<open>take\<close> count
  what Python's \<^verbatim>\<open>len\<close> and slicing count. An exception is a value: every call that can
  raise returns \<open>py_exception + 'a\<close>, with \<open>Inl\<close> the exception raised. The exceptions
  of the model are the ones derived from Python's \<^verbatim>\<open>Exception\<close>, which is what the
  handlers of the program catch.
\<close>

subsection \<open>Python's string operations\<close>

text \<open>\<^verbatim>\<open>sep.join(parts)\<close>.\<close>

fun join :: "string \<Rightarrow> string list \<Rightarrow> string" where
  "join sep [] = []"
| "join sep [x] = x"
| "join sep (x # y # ys) = x @ sep @ join sep (y # ys)"

text \<open>
  \<^verbatim>\<open>s.replace(old, new)\<close>: every occurrence of \<open>old\<close> found scanning from the left,
  without overlap, is replaced; an empty \<open>old\<close> matches before every character and at
  the end.
\<close>

function str_replace :: "string \<Rightarrow> string \<Rightarrow> string \<Rightarrow> string" where
  "str_replace old new [] = (if old = [] then new else [])"
| "str_replace old new (c # cs) =
     (if old = [] then new @ c # str_replace old new cs
      else if prefix old (c # cs) then new @ str_replace old new (drop (length old) (c # cs))
      else c # str_replace old new cs)"
  by pat_completeness auto
termination
  by (relation "measure (\<lambda>(old, new, s). length s)") auto

text \<open>\<^verbatim>\<open>str(n)\<close> for an integer, which is what an f-string writes for \<^verbatim>\<open>{words}\<close>.\<close>

definition digit_char :: "nat \<Rightarrow> char" where
  "digit_char d = ''0123456789'' ! d"

function str_nat :: "nat \<Rightarrow> string" where
  "str_nat n = (if n < 10 then [digit_char n] else str_nat (n div 10) @ [digit_char (n mod 10)])"
  by pat_completeness auto
termination
  by (relation "measure (\<lambda>n. n)") auto

declare str_nat.simps [simp del]

definition str_int :: "int \<Rightarrow> string" where
  "str_int i = (if i < 0 then CHR ''-'' # str_nat (nat (- i)) else str_nat (nat i))"

text \<open>
  \<^verbatim>\<open>c.isspace()\<close> on the code points below 256: tab, line feed, vertical tab, form feed,
  carriage return, the four separators 0x1C to 0x1F, space, next line (0x85) and no-break
  space (0xA0). \<^verbatim>\<open>s.strip()\<close> removes them from both ends.
\<close>

definition isspace :: "char \<Rightarrow> bool" where
  "isspace c = (c \<in> {CHR 0x09, CHR 0x0A, CHR 0x0B, CHR 0x0C, CHR 0x0D,
                      CHR 0x1C, CHR 0x1D, CHR 0x1E, CHR 0x1F, CHR 0x20, CHR 0x85, CHR 0xA0})"

definition strip :: "string \<Rightarrow> string" where
  "strip s = rev (dropWhile isspace (rev (dropWhile isspace s)))"

text \<open>Occurrences of a pattern in a string, counted by starting position.\<close>

fun count_occ :: "string \<Rightarrow> string \<Rightarrow> nat" where
  "count_occ pat [] = (if pat = [] then 1 else 0)"
| "count_occ pat (c # cs) = (if prefix pat (c # cs) then 1 else 0) + count_occ pat cs"

text \<open>
  The number a string of decimal digits denotes, read from the left: the measure of what
  \<^verbatim>\<open>str(n)\<close> writes.
\<close>

definition digit_value :: "char \<Rightarrow> nat" where
  "digit_value c = of_char c - of_char (CHR ''0'')"

definition decimal_value :: "string \<Rightarrow> nat" where
  "decimal_value s = foldl (\<lambda>a c. 10 * a + digit_value c) 0 s"

subsection \<open>Exceptions, documents, prompt templates, the model client\<close>

text \<open>
  \<open>TypeError\<close> is the class the caller's handler names (line 162); \<open>OtherException\<close>
  is any other class derived from \<^verbatim>\<open>Exception\<close>. Both carry the text \<^verbatim>\<open>str(e)\<close>.
\<close>

datatype py_exception = TypeError (message: string) | OtherException (message: string)

record document =
  page_content :: string

text \<open>The fallback class \<^verbatim>\<open>PromptTemplate\<close> of lines 23 to 26.\<close>

record PromptTemplate =
  template :: string
  input_variables :: "string list"

text \<open>
  The remote model client: \<^verbatim>\<open>llm.invoke(p)\<close> answers a message whose \<^verbatim>\<open>content\<close> is
  the text, \<^verbatim>\<open>llm.predict(p)\<close> answers the text; either can raise.
\<close>

record ai_message =
  content :: string

record llm_client =
  invoke :: "string \<Rightarrow> py_exception + ai_message"
  predict :: "string \<Rightarrow> py_exception + string"

subsection \<open>The fallback chain (lines 37 to 57)\<close>

text \<open>
  \<^verbatim>\<open>SimpleChain\<close> holds the client and the prompt object. The prompt is optional
  (\<^verbatim>\<open>prompt=None\<close>): \<open>None\<close> is an object with no \<^verbatim>\<open>template\<close> attribute, for which
  \<^verbatim>\<open>getattr(self.prompt, "template", "{text}")\<close> answers the default.
\<close>

record SimpleChain =
  llm :: llm_client
  prompt :: "PromptTemplate option"

text \<open>Lines 44 to 46: the rendered prompt. \<^verbatim>\<open>input_documents or []\<close> is the case on the option.\<close>

definition final_prompt :: "SimpleChain \<Rightarrow> document list option \<Rightarrow> string" where
  "final_prompt self input_documents =
     (let text = join ''\<newline>\<newline>''
                   (map page_content (case input_documents of None \<Rightarrow> [] | Some ds \<Rightarrow> ds));
          tmpl = (case prompt self of None \<Rightarrow> ''{text}'' | Some p \<Rightarrow> template p)
      in str_replace ''{text}'' text tmpl)"

text \<open>Lines 43 to 55: \<^verbatim>\<open>SimpleChain.run\<close>.\<close>

definition run :: "SimpleChain \<Rightarrow> document list option \<Rightarrow> py_exception + string" where
  "run self input_documents =
     (let fp = final_prompt self input_documents in
      case invoke (llm self) fp of
        Inr m \<Rightarrow> Inr (content m)
      | Inl _ \<Rightarrow>
          (case predict (llm self) fp of
             Inr s \<Rightarrow> Inr s
           | Inl _ \<Rightarrow> Inr (take 5000 fp)))"

text \<open>Lines 118 to 124: \<^verbatim>\<open>make_prompt\<close>.\<close>

definition make_prompt :: "int \<Rightarrow> PromptTemplate" where
  "make_prompt words =
     \<lparr>template =
        ''Provide a clear, neutral summary in about '' @ str_int words @ '' words.\<newline>\<newline>''
        @ ''Content:\<newline>{text}\<newline>\<newline>''
        @ ''Include key points and conclusions.'',
      input_variables = [''text'']\<rparr>"

text \<open>
  Lines 37 and 57: the fallback \<^verbatim>\<open>load_summarize_chain(llm, chain_type="stuff", prompt=None)\<close>
  ignores the chain type and builds the \<^verbatim>\<open>SimpleChain\<close>.
\<close>

datatype strategy = Stuff | Map_reduce | Refine

definition load_summarize_chain ::
  "llm_client \<Rightarrow> strategy \<Rightarrow> PromptTemplate option \<Rightarrow> SimpleChain" where
  "load_summarize_chain client kind p = \<lparr>llm = client, prompt = p\<rparr>"

subsection \<open>The collaborators and what the user sees\<close>

text \<open>
  The chain the caller holds is the library's or the fallback, whichever the imports
  resolved. The caller uses it through two call shapes, \<^verbatim>\<open>chain.run(input_documents=docs)\<close>
  and \<^verbatim>\<open>chain.run(docs)\<close>; for \<^verbatim>\<open>SimpleChain\<close> both bind the one parameter of \<open>run\<close>.
\<close>

record chain =
  run_keyword :: "document list \<Rightarrow> py_exception + string"
  run_positional :: "document list \<Rightarrow> py_exception + string"

definition chain_of_SimpleChain :: "SimpleChain \<Rightarrow> chain" where
  "chain_of_SimpleChain sc =
     \<lparr>run_keyword = (\<lambda>docs. run sc (Some docs)),
      run_positional = (\<lambda>docs. run sc (Some docs))\<rparr>"

text \<open>The arguments \<^verbatim>\<open>UnstructuredURLLoader\<close> is built with (lines 111 to 115).\<close>

record loader_args =
  urls :: "string list"
  ssl_verify :: bool
  headers :: "(string \<times> string) list"

text \<open>
  Everything the program does to the outside, in order: calls to the collaborators and
  the widgets it draws.
\<close>

datatype event =
    ValidatorsUrl string
  | StSpinner string
  | NetworkFetch loader_args
  | StError string
  | StTextArea string string
  | CreateChatGroq string string
  | LoadSummarizeChain strategy
  | ChainRunKeyword
  | ChainRunPositional
  | StSuccess string
  | StSubheader string
  | StWrite string
  | SessionStateUpdate string "document list" PromptTemplate strategy string string
  | StDownloadButton string string string string
  | StException

text \<open>
  The collaborators the program calls and does not define: \<^verbatim>\<open>validators.url\<close> (read
  for its truth value), the loader's \<^verbatim>\<open>load\<close>, the \<^verbatim>\<open>ChatGroq\<close> constructor, and the
  \<^verbatim>\<open>load_summarize_chain\<close> the imports of lines 30 to 57 resolved.
\<close>

record world =
  validators_url :: "string \<Rightarrow> bool"
  UnstructuredURLLoader_load :: "loader_args \<Rightarrow> py_exception + document list"
  ChatGroq :: "string \<Rightarrow> string \<Rightarrow> py_exception + llm_client"
  resolved_load_summarize_chain ::
    "llm_client \<Rightarrow> strategy \<Rightarrow> PromptTemplate \<Rightarrow> py_exception + chain"

text \<open>The widgets' values when the script runs (lines 87 to 106).\<close>

record inputs =
  groq_api_key :: string
  summary_words :: int
  show_extracted :: bool
  chain_type :: strategy
  dev_mode :: bool
  url :: string
  submit :: bool

subsection \<open>The content loader (lines 109 to 116)\<close>

text \<open>The undecorated body of \<^verbatim>\<open>load_url_content\<close>: one fetch through the loader.\<close>

definition load_url_content_body ::
  "world \<Rightarrow> string \<Rightarrow> (py_exception + document list) \<times> event list" where
  "load_url_content_body w u =
     (let args = \<lparr>urls = [u], ssl_verify = False,
                   headers = [(''User-Agent'', ''Mozilla/5.0'')]\<rparr>
      in (UnstructuredURLLoader_load w args, [NetworkFetch args]))"

text \<open>
  Modelled from the spec: the decorator \<^verbatim>\<open>st.cache_data\<close> is Streamlit's and its code is
  not in the repository. Section 4.2 of the specification: results are cached, keyed by
  the exact URL string, for the duration of the session, and a repeated call with the
  same URL returns the previously fetched result without a new network round trip. A
  call that raises returns no result, so it stores none.
\<close>

type_synonym cache = "string \<rightharpoonup> document list"

definition cache_data ::
  "(string \<Rightarrow> (py_exception + document list) \<times> event list) \<Rightarrow> cache \<Rightarrow> string \<Rightarrow>
     (py_exception + document list) \<times> cache \<times> event list" where
  "cache_data f c k =
     (case c k of
        Some v \<Rightarrow> (Inr v, c, [])
      | None \<Rightarrow>
          (case f k of
             (Inr v, evs) \<Rightarrow> (Inr v, c(k \<mapsto> v), evs)
           | (Inl e, evs) \<Rightarrow> (Inl e, c, evs)))"

definition load_url_content ::
  "world \<Rightarrow> cache \<Rightarrow> string \<Rightarrow> (py_exception + document list) \<times> cache \<times> event list" where
  "load_url_content w c u = cache_data (load_url_content_body w) c u"

subsection \<open>The submit handler (lines 127 to 189)\<close>

text \<open>Lines 160 to 163: the call of the chain, with its handler for \<^verbatim>\<open>TypeError\<close>.\<close>

definition call_chain :: "chain \<Rightarrow> document list \<Rightarrow> event list \<times> (py_exception + string)" where
  "call_chain ch docs =
     (case run_keyword ch docs of
        Inr summary \<Rightarrow> ([ChainRunKeyword], Inr summary)
      | Inl (TypeError m) \<Rightarrow> ([ChainRunKeyword, ChainRunPositional], run_positional ch docs)
      | Inl (OtherException m) \<Rightarrow> ([ChainRunKeyword], Inl (OtherException m)))"

text \<open>
  Lines 140 to 184: what runs once documents were found. The result is the events so
  far and the exception that ended the block, if one did.
\<close>

definition summarize_docs ::
  "world \<Rightarrow> inputs \<Rightarrow> document list \<Rightarrow> event list \<times> py_exception option" where
  "summarize_docs w i docs =
     (let preview =
            (if show_extracted i
             then [StTextArea ''Extracted Content (preview)''
                     (join ''\<newline>\<newline>'' (map (\<lambda>d. take 3000 (page_content d)) docs))]
             else []);
          model = ''llama-3.1-8b-instant'';
          made = preview @ [CreateChatGroq model (groq_api_key i)]
      in case ChatGroq w model (groq_api_key i) of
           Inl e \<Rightarrow> (made, Some e)
         | Inr client \<Rightarrow>
             let p = make_prompt (summary_words i);
                 loaded = made @ [StSpinner ''Summarizing...'', LoadSummarizeChain (chain_type i)]
             in case resolved_load_summarize_chain w client (chain_type i) p of
                  Inl e \<Rightarrow> (loaded, Some e)
                | Inr ch \<Rightarrow>
                    (case call_chain ch docs of
                       (calls, Inl e) \<Rightarrow> (loaded @ calls, Some e)
                     | (calls, Inr summary) \<Rightarrow>
                         (loaded @ calls @
                            [StSuccess ''Summary generated'', StSubheader ''Summary'',
                             StWrite summary,
                             SessionStateUpdate (url i) docs p (chain_type i) summary model,
                             StDownloadButton ''Download summary'' summary
                               ''summary.txt'' ''text/plain''],
                          None)))"

text \<open>Lines 186 to 189: the handler of the outer \<^verbatim>\<open>try\<close>.\<close>

definition report_exception :: "inputs \<Rightarrow> py_exception \<Rightarrow> event list" where
  "report_exception i e =
     StError (''Error: '' @ message e) # (if dev_mode i then [StException] else [])"

definition main_logic :: "world \<Rightarrow> inputs \<Rightarrow> cache \<Rightarrow> cache \<times> event list" where
  "main_logic w i c =
     (if \<not> submit i then (c, [])
      else if strip (groq_api_key i) = [] then (c, [StError ''Groq API key is required.''])
      else if \<not> validators_url w (url i)
        then (c, [ValidatorsUrl (url i),
                  StError ''Enter a valid URL including http:// or https://''])
      else
        (case load_url_content w c (url i) of
           (r, c', fetched) \<Rightarrow>
             let loaded = [ValidatorsUrl (url i), StSpinner ''Loading website...''] @ fetched
             in case r of
                  Inl e \<Rightarrow> (c', loaded @ report_exception i e)
                | Inr docs \<Rightarrow>
                    if docs = [] then (c', loaded @ [StError ''No content found.''])
                    else
                      (case summarize_docs w i docs of
                         (evs, None) \<Rightarrow> (c', loaded @ evs)
                       | (evs, Some e) \<Rightarrow> (c', loaded @ evs @ report_exception i e))))"

text \<open>The events that are part of a summarization: building the client, resolving and running the chain.\<close>

fun is_pipeline_event :: "event \<Rightarrow> bool" where
  "is_pipeline_event (CreateChatGroq _ _) = True"
| "is_pipeline_event (LoadSummarizeChain _) = True"
| "is_pipeline_event ChainRunKeyword = True"
| "is_pipeline_event ChainRunPositional = True"
| "is_pipeline_event _ = False"

fun is_fetch_event :: "event \<Rightarrow> bool" where
  "is_fetch_event (NetworkFetch _) = True"
| "is_fetch_event _ = False"

fun is_validation_event :: "event \<Rightarrow> bool" where
  "is_validation_event (ValidatorsUrl _) = True"
| "is_validation_event _ = False"

subsection \<open>Test doubles\<close>

text \<open>Clients and collaborators with fixed answers, for the concrete instances below.\<close>

definition empty_reply_client :: llm_client where
  "empty_reply_client =
     \<lparr>invoke = (\<lambda>p. Inr \<lparr>content = []\<rparr>),
      predict = (\<lambda>p. Inl (OtherException ''predict is gone''))\<rparr>"

definition failing_client :: llm_client where
  "failing_client =
     \<lparr>invoke = (\<lambda>p. Inl (TypeError ''invoke() got an unexpected argument'')),
      predict = (\<lambda>p. Inl (OtherException ''predict is gone''))\<rparr>"

definition answering_client :: llm_client where
  "answering_client =
     \<lparr>invoke = (\<lambda>p. Inr \<lparr>content = ''a summary of '' @ take 7 p\<rparr>),
      predict = (\<lambda>p. Inl (OtherException ''predict is gone''))\<rparr>"

definition legacy_client :: llm_client where
  "legacy_client =
     \<lparr>invoke = (\<lambda>p. Inl (OtherException ''invoke is not supported'')),
      predict = (\<lambda>p. Inr ''a summary'')\<rparr>"

definition keyword_rejecting_chain :: chain where
  "keyword_rejecting_chain =
     \<lparr>run_keyword = (\<lambda>docs. Inl (TypeError ''unexpected keyword argument'')),
      run_positional = (\<lambda>docs. Inr ''a summary'')\<rparr>"

definition rate_limited_chain :: chain where
  "rate_limited_chain =
     \<lparr>run_keyword = (\<lambda>docs. Inl (OtherException ''rate limit'')),
      run_positional = (\<lambda>docs. Inr ''a summary'')\<rparr>"

text \<open>
  A chain whose \<^verbatim>\<open>run\<close> takes the keyword argument and then fails inside, adding a
  number to a string; the positional call fails the same way.
\<close>

definition inner_type_error_chain :: chain where
  "inner_type_error_chain =
     \<lparr>run_keyword = (\<lambda>docs. Inl (TypeError ''unsupported operand type(s) for +: int and str'')),
      run_positional = (\<lambda>docs. Inl (TypeError ''unsupported operand type(s) for +: int and str''))\<rparr>"

definition test_world :: "(py_exception + document list) \<Rightarrow> world" where
  "test_world page =
     \<lparr>validators_url = (\<lambda>u. prefix ''https://'' u),
      UnstructuredURLLoader_load = (\<lambda>args. page),
      ChatGroq = (\<lambda>model key. Inr failing_client),
      resolved_load_summarize_chain =
        (\<lambda>client kind p.
           Inr (chain_of_SimpleChain (load_summarize_chain client kind (Some p))))\<rparr>"

definition test_inputs :: "string \<Rightarrow> inputs" where
  "test_inputs key =
     \<lparr>groq_api_key = key, summary_words = 300, show_extracted = False,
      chain_type = Stuff, dev_mode = False, url = ''https://example.com/article'',
      submit = True\<rparr>"

section \<open>Properties\<close>

subsection \<open>Facts about the string operations\<close>

lemma join_pair: "join sep [a, b] = a @ sep @ b"
  by simp

lemma str_int_examples:
  "str_int 50 = ''50''" "str_int 300 = ''300''" "str_int 1000 = ''1000''" "str_int (- 7) = ''-7''"
  by (simp_all add: str_int_def str_nat.simps digit_char_def)

lemma digit_char_digit: "d < 10 \<Longrightarrow> digit_char d \<in> set ''0123456789''"
  unfolding digit_char_def by (rule nth_mem) simp

lemma str_nat_set:
  assumes "\<And>d. d < 10 \<Longrightarrow> digit_char d \<in> D"
  shows "set (str_nat n) \<subseteq> D"
proof (induction n rule: str_nat.induct)
  case (1 n)
  show ?case
  proof (cases "n < 10")
    case True
    then have "str_nat n = [digit_char n]"
      by (subst str_nat.simps) simp
    with assms [OF True] show ?thesis by simp
  next
    case False
    then have eq: "str_nat n = str_nat (n div 10) @ [digit_char (n mod 10)]"
      by (subst str_nat.simps) simp
    have "digit_char (n mod 10) \<in> D"
      by (rule assms) simp
    moreover have "set (str_nat (n div 10)) \<subseteq> D"
      using 1 False by simp
    ultimately show ?thesis by (simp add: eq)
  qed
qed

lemma str_nat_digits: "set (str_nat n) \<subseteq> set ''0123456789''"
  by (rule str_nat_set) (rule digit_char_digit)

lemma str_int_chars:
  assumes "c \<in> set (str_int i)"
  shows "c = CHR ''-'' \<or> c \<in> set ''0123456789''"
proof (cases "i < 0")
  case True
  then have "str_int i = CHR ''-'' # str_nat (nat (- i))"
    by (simp add: str_int_def)
  with assms have "c = CHR ''-'' \<or> c \<in> set (str_nat (nat (- i)))"
    by (simp only: set_ConsD list.set insert_iff)
  then show ?thesis
    using str_nat_digits [of "nat (- i)"] by blast
next
  case False
  then have "str_int i = str_nat (nat i)"
    by (simp add: str_int_def)
  with assms have "c \<in> set (str_nat (nat i))"
    by (simp only:)
  then show ?thesis
    using str_nat_digits [of "nat i"] by blast
qed

lemma str_int_no_brace: "CHR ''{'' \<notin> set (str_int i)" "CHR ''}'' \<notin> set (str_int i)"
proof -
  show "CHR ''{'' \<notin> set (str_int i)"
  proof
    assume "CHR ''{'' \<in> set (str_int i)"
    then have "CHR ''{'' = CHR ''-'' \<or> CHR ''{'' \<in> set ''0123456789''"
      by (rule str_int_chars)
    then show False by simp
  qed
  show "CHR ''}'' \<notin> set (str_int i)"
  proof
    assume "CHR ''}'' \<in> set (str_int i)"
    then have "CHR ''}'' = CHR ''-'' \<or> CHR ''}'' \<in> set ''0123456789''"
      by (rule str_int_chars)
    then show False by simp
  qed
qed

text \<open>A pattern that starts with a character the front of the string lacks is not found there.\<close>

lemma count_occ_skip: "p \<notin> set xs \<Longrightarrow> count_occ (p # ps) (xs @ ys) = count_occ (p # ps) ys"
  by (induction xs) auto

lemma count_list_skip: "x \<notin> set xs \<Longrightarrow> count_list (xs @ ys) x = count_list ys x"
  by (induction xs) auto

text \<open>Replacing a non-empty pattern that occurs leaves the replacement in the result.\<close>

lemma sublist_str_replace:
  "old \<noteq> [] \<Longrightarrow> sublist old s \<Longrightarrow> sublist new (str_replace old new s)"
proof (induction old new s rule: str_replace.induct)
  case (1 old new)
  then show ?case by simp
next
  case (2 old new c cs)
  show ?case
  proof (cases "prefix old (c # cs)")
    case True
    with 2 show ?thesis by simp
  next
    case False
    with 2 have "sublist old cs" by (simp add: sublist_Cons_right)
    with 2 False have "sublist new (str_replace old new cs)" by simp
    then have "sublist new (c # str_replace old new cs)" by (simp add: sublist_Cons_right)
    with 2 False show ?thesis by simp
  qed
qed

text \<open>\<^verbatim>\<open>join\<close> without recursion: the first part, then every other part behind a separator.\<close>

lemma join_closed_form:
  "join sep xs = (case xs of [] \<Rightarrow> [] | c # cs \<Rightarrow> c @ concat (map (\<lambda>x. sep @ x) cs))"
  by (induction sep xs rule: join.induct) simp_all

text \<open>Where the pattern's first character does not occur nothing is replaced; the first slot is where the pattern first starts.\<close>

lemma str_replace_absent: "p \<notin> set s \<Longrightarrow> str_replace (p # ps) new s = s"
  by (induction s) auto

lemma str_replace_first_slot:
  "p \<notin> set pre \<Longrightarrow>
   str_replace (p # ps) new (pre @ (p # ps) @ post) = pre @ new @ str_replace (p # ps) new post"
  by (induction pre) auto

text \<open>\<^verbatim>\<open>str(n)\<close> denotes \<open>n\<close> and has no leading zero.\<close>

lemma below_ten: "d < 10 \<Longrightarrow> d \<in> {0, 1, 2, 3, 4, 5, 6, 7, 8, 9::nat}"
  by auto

lemma digit_value_digit_char: "d < 10 \<Longrightarrow> digit_value (digit_char d) = d"
  by (drule below_ten) (auto simp: digit_value_def digit_char_def)

lemma digit_char_zero: "d < 10 \<Longrightarrow> digit_char d = CHR ''0'' \<longleftrightarrow> d = 0"
  by (drule below_ten) (auto simp: digit_char_def)

lemma decimal_value_snoc: "decimal_value (s @ [c]) = 10 * decimal_value s + digit_value c"
  by (simp add: decimal_value_def)

lemma decimal_value_str_nat: "decimal_value (str_nat n) = n"
proof (induction n rule: str_nat.induct)
  case (1 n)
  show ?case
  proof (cases "n < 10")
    case True
    then have "str_nat n = [digit_char n]"
      by (subst str_nat.simps) simp
    with True show ?thesis
      by (simp add: decimal_value_def digit_value_digit_char)
  next
    case False
    then have eq: "str_nat n = str_nat (n div 10) @ [digit_char (n mod 10)]"
      by (subst str_nat.simps) simp
    have "decimal_value (str_nat (n div 10)) = n div 10"
      using 1 False by simp
    then show ?thesis
      by (simp add: eq decimal_value_snoc digit_value_digit_char)
  qed
qed

lemma str_nat_not_empty: "str_nat n \<noteq> []"
  by (subst str_nat.simps) simp

lemma str_nat_no_leading_zero: "0 < n \<Longrightarrow> hd (str_nat n) \<noteq> CHR ''0''"
proof (induction n rule: str_nat.induct)
  case (1 n)
  show ?case
  proof (cases "n < 10")
    case True
    then have "str_nat n = [digit_char n]"
      by (subst str_nat.simps) simp
    with True "1.prems" show ?thesis
      by (simp add: digit_char_zero)
  next
    case False
    then have eq: "str_nat n = str_nat (n div 10) @ [digit_char (n mod 10)]"
      by (subst str_nat.simps) simp
    from False have "0 < n div 10" by simp
    with 1 False have "hd (str_nat (n div 10)) \<noteq> CHR ''0''" by simp
    then show ?thesis
      by (simp add: eq str_nat_not_empty)
  qed
qed

text \<open>\<^verbatim>\<open>s.strip()\<close> is empty exactly for a string of whitespace only.\<close>

lemma strip_blank: "strip s = [] \<longleftrightarrow> (\<forall>c\<in>set s. isspace c)"
proof
  assume "strip s = []"
  then have "dropWhile isspace (rev (dropWhile isspace s)) = []"
    by (simp add: strip_def)
  then have "\<forall>c\<in>set (dropWhile isspace s). isspace c"
    by (simp add: dropWhile_eq_Nil_conv)
  moreover have "\<forall>c\<in>set (takeWhile isspace s). isspace c"
    by (auto dest: set_takeWhileD)
  moreover have "set s = set (takeWhile isspace s) \<union> set (dropWhile isspace s)"
    by (metis set_append takeWhile_dropWhile_id)
  ultimately show "\<forall>c\<in>set s. isspace c" by blast
next
  assume "\<forall>c\<in>set s. isspace c"
  then show "strip s = []" by (auto simp: strip_def dest: set_dropWhileD)
qed

lemma make_prompt_300:
  "template (make_prompt 300) =
     ''Provide a clear, neutral summary in about 300 words.\<newline>\<newline>Content:\<newline>{text}\<newline>\<newline>Include key points and conclusions.''"
  by (simp add: make_prompt_def str_int_examples)

lemma make_prompt_has_slot: "sublist ''{text}'' (template (make_prompt w))"
proof -
  have "template (make_prompt w) =
      (''Provide a clear, neutral summary in about '' @ str_int w @ '' words.\<newline>\<newline>Content:\<newline>'')
      @ ''{text}'' @ ''\<newline>\<newline>Include key points and conclusions.''"
    by (simp add: make_prompt_def)
  then show ?thesis by (simp only: sublist_appendI)
qed

lemma load_url_content_events:
  "load_url_content w c u = (r, c', evs) \<Longrightarrow> \<forall>e\<in>set evs. \<not> is_pipeline_event e"
  by (auto simp: load_url_content_def cache_data_def load_url_content_body_def Let_def
      split: option.splits sum.splits)

subsection \<open>The fallback chain\<close>

text \<open>
  Claim C1, as stated: for every sequence of documents and every prompt template,
  \<^verbatim>\<open>SimpleChain.run\<close> either returns a non-empty text or raises; it never returns an
  empty string as a success. The code has no check on what it returns: a client whose
  \<^verbatim>\<open>invoke\<close> answers a message with empty content makes \<open>run\<close> return the empty string,
  here with the prompt of \<open>make_prompt 300\<close> and one document.
\<close>

theorem run_empty_reply_counterexample:
  "run \<lparr>llm = empty_reply_client, prompt = Some (make_prompt 300)\<rparr>
     (Some [\<lparr>page_content = ''A''\<rparr>]) = Inr []"
  by (simp add: run_def empty_reply_client_def)

text \<open>
  Claim C1, amended: for every sequence of documents and every prompt template,
  \<^verbatim>\<open>SimpleChain.run\<close> returns the content of \<^verbatim>\<open>llm.invoke\<close> on the rendered prompt when
  that call succeeds, otherwise the result of \<^verbatim>\<open>llm.predict\<close> when that call succeeds,
  otherwise the first 5000 characters of the rendered prompt. The string it returns is
  empty exactly when \<^verbatim>\<open>invoke\<close> succeeds with empty content, or \<^verbatim>\<open>invoke\<close> raises and
  \<^verbatim>\<open>predict\<close> succeeds with an empty string, or both raise and the rendered prompt is
  empty; in every other case it is non-empty text.
\<close>

theorem run_returns_text:
  "run self docs =
     (case invoke (llm self) (final_prompt self docs) of
        Inr m \<Rightarrow> Inr (content m)
      | Inl e \<Rightarrow>
          (case predict (llm self) (final_prompt self docs) of
             Inr s \<Rightarrow> Inr s
           | Inl e' \<Rightarrow> Inr (take 5000 (final_prompt self docs)))) \<and>
   (run self docs = Inr [] \<longleftrightarrow>
      (case invoke (llm self) (final_prompt self docs) of
         Inr m \<Rightarrow> content m = []
       | Inl e \<Rightarrow>
           (case predict (llm self) (final_prompt self docs) of
              Inr s \<Rightarrow> s = []
            | Inl e' \<Rightarrow> final_prompt self docs = [])))"
  by (simp add: run_def Let_def split: sum.splits)

text \<open>
  The amended C1 at three clients, with the prompt of \<open>make_prompt 300\<close> and one
  document: one whose \<^verbatim>\<open>invoke\<close> answers, one whose \<^verbatim>\<open>invoke\<close> raises and whose
  \<^verbatim>\<open>predict\<close> answers, one whose two methods raise.
\<close>

theorem run_returns_text_witness:
  "run \<lparr>llm = answering_client, prompt = Some (make_prompt 300)\<rparr> (Some [\<lparr>page_content = ''A''\<rparr>]) =
     Inr ''a summary of Provide'' \<and>
   run \<lparr>llm = legacy_client, prompt = Some (make_prompt 300)\<rparr> (Some [\<lparr>page_content = ''A''\<rparr>]) =
     Inr ''a summary'' \<and>
   run \<lparr>llm = failing_client, prompt = Some (make_prompt 300)\<rparr> (Some [\<lparr>page_content = ''A''\<rparr>]) =
     Inr ''Provide a clear, neutral summary in about 300 words.\<newline>\<newline>Content:\<newline>A\<newline>\<newline>Include key points and conclusions.''"
proof -
  let ?docs = "Some [\<lparr>page_content = ''A''\<rparr>]"
  have fp: "final_prompt \<lparr>llm = client, prompt = Some (make_prompt 300)\<rparr> ?docs =
    ''Provide a clear, neutral summary in about 300 words.\<newline>\<newline>Content:\<newline>A\<newline>\<newline>Include key points and conclusions.''"
    for client
    by (simp add: final_prompt_def make_prompt_300)
  have 1: "run \<lparr>llm = answering_client, prompt = Some (make_prompt 300)\<rparr> ?docs =
      Inr ''a summary of Provide''"
    using run_returns_text [of "\<lparr>llm = answering_client, prompt = Some (make_prompt 300)\<rparr>" ?docs]
    by (simp add: fp answering_client_def)
  have 2: "run \<lparr>llm = legacy_client, prompt = Some (make_prompt 300)\<rparr> ?docs = Inr ''a summary''"
    using run_returns_text [of "\<lparr>llm = legacy_client, prompt = Some (make_prompt 300)\<rparr>" ?docs]
    by (simp add: fp legacy_client_def)
  have 3: "run \<lparr>llm = failing_client, prompt = Some (make_prompt 300)\<rparr> ?docs =
      Inr ''Provide a clear, neutral summary in about 300 words.\<newline>\<newline>Content:\<newline>A\<newline>\<newline>Include key points and conclusions.''"
    using run_returns_text [of "\<lparr>llm = failing_client, prompt = Some (make_prompt 300)\<rparr>" ?docs]
    by (simp add: fp failing_client_def)
  from 1 2 3 show ?thesis by blast
qed

text \<open>
  Claim C2: with the fallback chain in use, if \<^verbatim>\<open>llm.invoke\<close> raises and \<^verbatim>\<open>llm.predict\<close>
  raises on the rendered prompt, then \<^verbatim>\<open>SimpleChain.run\<close> does not raise: it returns the
  first 5000 characters of the rendered prompt, a string of length at most 5000, for
  every chain (client and template) and every document argument.
\<close>

theorem run_last_resort:
  assumes "invoke (llm self) (final_prompt self docs) = Inl e1"
    and "predict (llm self) (final_prompt self docs) = Inl e2"
  shows "\<exists>s. run self docs = Inr s \<and> s = take 5000 (final_prompt self docs) \<and>
           prefix s (final_prompt self docs) \<and> length s \<le> 5000"
  using assms by (simp add: run_def Let_def take_is_prefix)

text \<open>
  The instance of C2 at the client whose two methods raise, the prompt of
  \<open>make_prompt 300\<close> and one document: the rendered prompt is shorter than 5000
  characters and comes back whole.
\<close>

theorem run_last_resort_witness:
  "invoke failing_client (final_prompt \<lparr>llm = failing_client, prompt = Some (make_prompt 300)\<rparr>
       (Some [\<lparr>page_content = ''A''\<rparr>])) = Inl (TypeError ''invoke() got an unexpected argument'') \<and>
   predict failing_client (final_prompt \<lparr>llm = failing_client, prompt = Some (make_prompt 300)\<rparr>
       (Some [\<lparr>page_content = ''A''\<rparr>])) = Inl (OtherException ''predict is gone'') \<and>
   run \<lparr>llm = failing_client, prompt = Some (make_prompt 300)\<rparr> (Some [\<lparr>page_content = ''A''\<rparr>]) =
     Inr ''Provide a clear, neutral summary in about 300 words.\<newline>\<newline>Content:\<newline>A\<newline>\<newline>Include key points and conclusions.''"
proof -
  let ?self = "\<lparr>llm = failing_client, prompt = Some (make_prompt 300)\<rparr>"
  let ?docs = "Some [\<lparr>page_content = ''A''\<rparr>]"
  have a: "invoke (llm ?self) (final_prompt ?self ?docs) = Inl (TypeError ''invoke() got an unexpected argument'')"
    by (simp add: failing_client_def)
  have b: "predict (llm ?self) (final_prompt ?self ?docs) = Inl (OtherException ''predict is gone'')"
    by (simp add: failing_client_def)
  have fp: "final_prompt ?self ?docs =
    ''Provide a clear, neutral summary in about 300 words.\<newline>\<newline>Content:\<newline>A\<newline>\<newline>Include key points and conclusions.''"
    by (simp add: final_prompt_def make_prompt_300)
  from run_last_resort [OF a b] have "run ?self ?docs = Inr (take 5000 (final_prompt ?self ?docs))"
    by blast
  then have "run ?self ?docs = Inr (final_prompt ?self ?docs)"
    by (simp add: fp)
  with a b fp show ?thesis by simp
qed

text \<open>
  Claim C10: \<^verbatim>\<open>SimpleChain.run\<close> is total in its documents argument. For every documents
  argument \<open>run\<close> returns a string, the answer of the client to the rendered prompt or
  the front of that prompt. With \<^verbatim>\<open>input_documents\<close> \<open>None\<close> or the empty list the
  rendered prompt is the same, the template with the empty text substituted (for a
  template with one slot, what stands before the slot followed by what stands behind it),
  and \<open>run\<close> answers the same. With a prompt object that has no \<^verbatim>\<open>template\<close> attribute
  the default template \<^verbatim>\<open>{text}\<close> makes the rendered prompt the document text: the first
  content, then every further content behind a blank line.
\<close>

theorem run_total_in_documents:
  "run self docs =
     (case invoke (llm self) (final_prompt self docs) of
        Inr m \<Rightarrow> Inr (content m)
      | Inl e \<Rightarrow>
          (case predict (llm self) (final_prompt self docs) of
             Inr s \<Rightarrow> Inr s
           | Inl e' \<Rightarrow> Inr (take 5000 (final_prompt self docs)))) \<and>
   (\<exists>s. run self docs = Inr s) \<and>
   run self None = run self (Some []) \<and>
   final_prompt self None = final_prompt self (Some []) \<and>
   final_prompt self None =
     str_replace ''{text}'' [] (case prompt self of None \<Rightarrow> ''{text}'' | Some p \<Rightarrow> template p) \<and>
   (prompt self = Some p \<and> template p = pre @ ''{text}'' @ post \<and>
    CHR ''{'' \<notin> set pre \<and> CHR ''{'' \<notin> set post \<longrightarrow>
      final_prompt self None = pre @ post) \<and>
   (prompt self = None \<longrightarrow>
      final_prompt self docs =
        (case map page_content (case docs of None \<Rightarrow> [] | Some ds \<Rightarrow> ds) of
           [] \<Rightarrow> []
         | c # cs \<Rightarrow> c @ concat (map (\<lambda>x. ''\<newline>\<newline>'' @ x) cs)))"
proof -
  have slot: "final_prompt self None = pre @ post"
    if "prompt self = Some p" "template p = pre @ ''{text}'' @ post"
      "CHR ''{'' \<notin> set pre" "CHR ''{'' \<notin> set post"
  proof -
    have "str_replace ''{text}'' [] (pre @ ''{text}'' @ post) =
        pre @ [] @ str_replace ''{text}'' [] post"
      using that(3) by (rule str_replace_first_slot)
    also have "str_replace ''{text}'' [] post = post"
      using that(4) by (rule str_replace_absent)
    finally show ?thesis
      using that(1,2) by (simp add: final_prompt_def)
  qed
  have default: "final_prompt self docs =
        (case map page_content (case docs of None \<Rightarrow> [] | Some ds \<Rightarrow> ds) of
           [] \<Rightarrow> []
         | c # cs \<Rightarrow> c @ concat (map (\<lambda>x. ''\<newline>\<newline>'' @ x) cs))"
    if "prompt self = None"
    using that by (simp add: final_prompt_def join_closed_form)
  have rest: "run self docs =
     (case invoke (llm self) (final_prompt self docs) of
        Inr m \<Rightarrow> Inr (content m)
      | Inl e \<Rightarrow>
          (case predict (llm self) (final_prompt self docs) of
             Inr s \<Rightarrow> Inr s
           | Inl e' \<Rightarrow> Inr (take 5000 (final_prompt self docs)))) \<and>
   (\<exists>s. run self docs = Inr s) \<and>
   run self None = run self (Some []) \<and>
   final_prompt self None = final_prompt self (Some []) \<and>
   final_prompt self None =
     str_replace ''{text}'' [] (case prompt self of None \<Rightarrow> ''{text}'' | Some p \<Rightarrow> template p)"
    by (simp add: run_def final_prompt_def Let_def split: sum.splits)
  from rest slot default show ?thesis by blast
qed

text \<open>
  The instances of C10 at no documents with the prompt of \<open>make_prompt 300\<close>, and at
  three documents with no template, for the client whose two methods raise, so that
  \<open>run\<close> returns the rendered prompt.
\<close>

theorem run_total_in_documents_witness:
  "run \<lparr>llm = failing_client, prompt = Some (make_prompt 300)\<rparr> None =
     Inr ''Provide a clear, neutral summary in about 300 words.\<newline>\<newline>Content:\<newline>\<newline>\<newline>Include key points and conclusions.'' \<and>
   run \<lparr>llm = failing_client, prompt = None\<rparr>
       (Some [\<lparr>page_content = ''P''\<rparr>, \<lparr>page_content = ''Q''\<rparr>, \<lparr>page_content = ''R''\<rparr>]) =
     Inr ''P\<newline>\<newline>Q\<newline>\<newline>R''"
proof -
  let ?self = "\<lparr>llm = failing_client, prompt = Some (make_prompt 300)\<rparr>"
  let ?pre = "''Provide a clear, neutral summary in about 300 words.\<newline>\<newline>Content:\<newline>''"
  let ?post = "''\<newline>\<newline>Include key points and conclusions.''"
  let ?bare = "\<lparr>llm = failing_client, prompt = None\<rparr>"
  let ?docs = "Some [\<lparr>page_content = ''P''\<rparr>, \<lparr>page_content = ''Q''\<rparr>, \<lparr>page_content = ''R''\<rparr>]"
  have h: "prompt ?self = Some (make_prompt 300) \<and>
      template (make_prompt 300) = ?pre @ ''{text}'' @ ?post \<and>
      CHR ''{'' \<notin> set ?pre \<and> CHR ''{'' \<notin> set ?post"
    by (simp add: make_prompt_300)
  from run_total_in_documents [of ?self None "make_prompt 300" ?pre ?post] h
  have fp: "final_prompt ?self None = ?pre @ ?post"
    and r: "run ?self None =
     (case invoke (llm ?self) (final_prompt ?self None) of
        Inr m \<Rightarrow> Inr (content m)
      | Inl e \<Rightarrow>
          (case predict (llm ?self) (final_prompt ?self None) of
             Inr s \<Rightarrow> Inr s
           | Inl e' \<Rightarrow> Inr (take 5000 (final_prompt ?self None))))"
    by blast+
  have 1: "run ?self None = Inr (?pre @ ?post)"
    unfolding r fp by (simp add: failing_client_def)
  from run_total_in_documents [of ?bare ?docs]
  have fp2: "final_prompt ?bare ?docs = ''P\<newline>\<newline>Q\<newline>\<newline>R''"
    and r2: "run ?bare ?docs =
     (case invoke (llm ?bare) (final_prompt ?bare ?docs) of
        Inr m \<Rightarrow> Inr (content m)
      | Inl e \<Rightarrow>
          (case predict (llm ?bare) (final_prompt ?bare ?docs) of
             Inr s \<Rightarrow> Inr s
           | Inl e' \<Rightarrow> Inr (take 5000 (final_prompt ?bare ?docs))))"
    by simp_all
  have 2: "run ?bare ?docs = Inr ''P\<newline>\<newline>Q\<newline>\<newline>R''"
    unfolding r2 fp2 by (simp add: failing_client_def)
  from 1 2 show ?thesis by simp
qed

subsection \<open>The caller's retry\<close>

text \<open>
  Claim C6, as stated: the positional retry follows a rejection of the labelled argument
  (a signature mismatch), and no other exception from the keyword call triggers it. The
  handler of line 162 names the class \<^verbatim>\<open>TypeError\<close> and cannot tell why it was raised:
  a chain that takes the keyword argument and raises \<^verbatim>\<open>TypeError\<close> inside \<^verbatim>\<open>run\<close> for
  another reason is called a second time all the same.
\<close>

theorem call_chain_type_error_counterexample:
  "run_keyword inner_type_error_chain [\<lparr>page_content = ''A''\<rparr>] =
     Inl (TypeError ''unsupported operand type(s) for +: int and str'') \<and>
   call_chain inner_type_error_chain [\<lparr>page_content = ''A''\<rparr>] =
     ([ChainRunKeyword, ChainRunPositional],
      Inl (TypeError ''unsupported operand type(s) for +: int and str''))"
  by (simp add: call_chain_def inner_type_error_chain_def)

text \<open>
  Claim C6, amended: when \<^verbatim>\<open>chain.run(input_documents=docs)\<close> raises \<^verbatim>\<open>TypeError\<close>, for a
  rejected keyword argument or for any other reason, the caller calls
  \<^verbatim>\<open>chain.run(docs)\<close> once, and the outcome of the summarization call, success or
  failure, is the outcome of that second call. An exception of any class other than
  \<^verbatim>\<open>TypeError\<close> leaves the caller at once, with no positional call, and so does a
  success. The keyword call is made once, the positional call once or never.
\<close>

theorem call_chain_retry:
  "(run_keyword ch docs = Inl (TypeError m) \<longrightarrow>
      call_chain ch docs = ([ChainRunKeyword, ChainRunPositional], run_positional ch docs)) \<and>
   (run_keyword ch docs = Inl (OtherException m) \<longrightarrow>
      call_chain ch docs = ([ChainRunKeyword], Inl (OtherException m))) \<and>
   (run_keyword ch docs = Inr s \<longrightarrow> call_chain ch docs = ([ChainRunKeyword], Inr s)) \<and>
   count_list (fst (call_chain ch docs)) ChainRunKeyword = 1 \<and>
   count_list (fst (call_chain ch docs)) ChainRunPositional =
     (if \<exists>t. run_keyword ch docs = Inl (TypeError t) then 1 else 0)"
  by (auto simp: call_chain_def split: sum.splits py_exception.splits)

text \<open>
  The instances of the amended C6 at a chain that rejects the keyword argument and
  answers the positional call, and at a chain whose keyword call fails with another
  class of exception.
\<close>

theorem call_chain_retry_witness:
  "run_keyword keyword_rejecting_chain [\<lparr>page_content = ''A''\<rparr>] =
     Inl (TypeError ''unexpected keyword argument'') \<and>
   call_chain keyword_rejecting_chain [\<lparr>page_content = ''A''\<rparr>] =
     ([ChainRunKeyword, ChainRunPositional], Inr ''a summary'') \<and>
   run_keyword rate_limited_chain [\<lparr>page_content = ''A''\<rparr>] = Inl (OtherException ''rate limit'') \<and>
   call_chain rate_limited_chain [\<lparr>page_content = ''A''\<rparr>] =
     ([ChainRunKeyword], Inl (OtherException ''rate limit''))"
  using call_chain_retry [of keyword_rejecting_chain "[\<lparr>page_content = ''A''\<rparr>]"
      "''unexpected keyword argument''" "''a summary''"]
    call_chain_retry [of rate_limited_chain "[\<lparr>page_content = ''A''\<rparr>]" "''rate limit''" "''a summary''"]
  by (simp add: keyword_rejecting_chain_def rate_limited_chain_def)

subsection \<open>The rendered prompt\<close>

text \<open>
  Claim C3: the fallback rendering puts the document contents, in the order of the
  sequence and with a blank line between neighbours, in the place of the template's
  \<^verbatim>\<open>{text}\<close> slot. The document text is written out without \<open>join\<close>: the first content,
  then every further content behind a blank line. For a template with one slot (no brace
  before or behind it) the rendered prompt is what stands before the slot, the document
  text, and what stands behind it. For any template that has the slot the document text
  is a contiguous part of the rendered prompt, and for the two documents with contents A
  and B the rendered prompt contains A, a blank line, B.
\<close>

theorem final_prompt_contains_documents:
  "(template p = pre @ ''{text}'' @ post \<and> CHR ''{'' \<notin> set pre \<and> CHR ''{'' \<notin> set post \<longrightarrow>
      final_prompt \<lparr>llm = client, prompt = Some p\<rparr> (Some docs) =
        pre @
        (case map page_content docs of
           [] \<Rightarrow> []
         | c # cs \<Rightarrow> c @ concat (map (\<lambda>x. ''\<newline>\<newline>'' @ x) cs)) @
        post) \<and>
   (sublist ''{text}'' (template p) \<longrightarrow>
      sublist
        (case map page_content docs of
           [] \<Rightarrow> []
         | c # cs \<Rightarrow> c @ concat (map (\<lambda>x. ''\<newline>\<newline>'' @ x) cs))
        (final_prompt \<lparr>llm = client, prompt = Some p\<rparr> (Some docs)) \<and>
      sublist ''A\<newline>\<newline>B''
        (final_prompt \<lparr>llm = client, prompt = Some p\<rparr>
           (Some [\<lparr>page_content = ''A''\<rparr>, \<lparr>page_content = ''B''\<rparr>])))"
proof -
  let ?text = "\<lambda>ds. case map page_content ds of
           [] \<Rightarrow> []
         | c # cs \<Rightarrow> c @ concat (map (\<lambda>x. ''\<newline>\<newline>'' @ x) cs)"
  have rendered: "final_prompt \<lparr>llm = client, prompt = Some p\<rparr> (Some ds) =
      str_replace ''{text}'' (?text ds) (template p)" for ds
    by (simp add: final_prompt_def join_closed_form)
  have exact: "final_prompt \<lparr>llm = client, prompt = Some p\<rparr> (Some docs) = pre @ ?text docs @ post"
    if "template p = pre @ ''{text}'' @ post" "CHR ''{'' \<notin> set pre" "CHR ''{'' \<notin> set post"
  proof -
    have "str_replace ''{text}'' (?text docs) (pre @ ''{text}'' @ post) =
        pre @ ?text docs @ str_replace ''{text}'' (?text docs) post"
      using that(2) by (rule str_replace_first_slot)
    also have "str_replace ''{text}'' (?text docs) post = post"
      using that(3) by (rule str_replace_absent)
    finally show ?thesis
      by (simp only: rendered that(1))
  qed
  have inside: "sublist (?text ds) (final_prompt \<lparr>llm = client, prompt = Some p\<rparr> (Some ds))"
    if "sublist ''{text}'' (template p)" for ds
    unfolding rendered using that by (intro sublist_str_replace) simp_all
  have "?text [\<lparr>page_content = ''A''\<rparr>, \<lparr>page_content = ''B''\<rparr>] = ''A\<newline>\<newline>B''"
    by simp
  with inside [of "[\<lparr>page_content = ''A''\<rparr>, \<lparr>page_content = ''B''\<rparr>]"]
  have ab: "sublist ''A\<newline>\<newline>B''
        (final_prompt \<lparr>llm = client, prompt = Some p\<rparr>
           (Some [\<lparr>page_content = ''A''\<rparr>, \<lparr>page_content = ''B''\<rparr>]))"
    if "sublist ''{text}'' (template p)"
    using that by simp
  from exact inside [of docs] ab show ?thesis by blast
qed

text \<open>
  The instances of C3 at the template of \<open>make_prompt 300\<close>, with the documents A, B and
  the documents P, Q, R, and the prompts they render.
\<close>

theorem final_prompt_contains_documents_witness:
  "final_prompt \<lparr>llm = failing_client, prompt = Some (make_prompt 300)\<rparr>
        (Some [\<lparr>page_content = ''A''\<rparr>, \<lparr>page_content = ''B''\<rparr>]) =
     ''Provide a clear, neutral summary in about 300 words.\<newline>\<newline>Content:\<newline>A\<newline>\<newline>B\<newline>\<newline>Include key points and conclusions.'' \<and>
   final_prompt \<lparr>llm = failing_client, prompt = Some (make_prompt 300)\<rparr>
        (Some [\<lparr>page_content = ''P''\<rparr>, \<lparr>page_content = ''Q''\<rparr>, \<lparr>page_content = ''R''\<rparr>]) =
     ''Provide a clear, neutral summary in about 300 words.\<newline>\<newline>Content:\<newline>P\<newline>\<newline>Q\<newline>\<newline>R\<newline>\<newline>Include key points and conclusions.'' \<and>
   sublist ''{text}'' (template (make_prompt 300)) \<and>
   sublist ''A\<newline>\<newline>B''
     (final_prompt \<lparr>llm = failing_client, prompt = Some (make_prompt 300)\<rparr>
        (Some [\<lparr>page_content = ''A''\<rparr>, \<lparr>page_content = ''B''\<rparr>]))"
proof -
  let ?pre = "''Provide a clear, neutral summary in about 300 words.\<newline>\<newline>Content:\<newline>''"
  let ?post = "''\<newline>\<newline>Include key points and conclusions.''"
  let ?ab = "[\<lparr>page_content = ''A''\<rparr>, \<lparr>page_content = ''B''\<rparr>]"
  let ?pqr = "[\<lparr>page_content = ''P''\<rparr>, \<lparr>page_content = ''Q''\<rparr>, \<lparr>page_content = ''R''\<rparr>]"
  have h: "template (make_prompt 300) = ?pre @ ''{text}'' @ ?post \<and>
      CHR ''{'' \<notin> set ?pre \<and> CHR ''{'' \<notin> set ?post"
    by (simp add: make_prompt_300)
  have s: "sublist ''{text}'' (template (make_prompt 300))"
    by (rule make_prompt_has_slot)
  from final_prompt_contains_documents [of "make_prompt 300" ?pre ?post failing_client ?ab] h
  have 1: "final_prompt \<lparr>llm = failing_client, prompt = Some (make_prompt 300)\<rparr> (Some ?ab) =
      ?pre @ ''A\<newline>\<newline>B'' @ ?post"
    by simp
  from final_prompt_contains_documents [of "make_prompt 300" ?pre ?post failing_client ?ab] s
  have 2: "sublist ''A\<newline>\<newline>B''
      (final_prompt \<lparr>llm = failing_client, prompt = Some (make_prompt 300)\<rparr> (Some ?ab))"
    by blast
  from final_prompt_contains_documents [of "make_prompt 300" ?pre ?post failing_client ?pqr] h
  have 3: "final_prompt \<lparr>llm = failing_client, prompt = Some (make_prompt 300)\<rparr> (Some ?pqr) =
      ?pre @ ''P\<newline>\<newline>Q\<newline>\<newline>R'' @ ?post"
    by simp
  have ab_eq: "final_prompt \<lparr>llm = failing_client, prompt = Some (make_prompt 300)\<rparr> (Some ?ab) =
     ''Provide a clear, neutral summary in about 300 words.\<newline>\<newline>Content:\<newline>A\<newline>\<newline>B\<newline>\<newline>Include key points and conclusions.''"
    unfolding 1 by simp
  have pqr_eq: "final_prompt \<lparr>llm = failing_client, prompt = Some (make_prompt 300)\<rparr> (Some ?pqr) =
     ''Provide a clear, neutral summary in about 300 words.\<newline>\<newline>Content:\<newline>P\<newline>\<newline>Q\<newline>\<newline>R\<newline>\<newline>Include key points and conclusions.''"
    unfolding 3 by simp
  from ab_eq 2 pqr_eq s show ?thesis by blast
qed

text \<open>
  Claim C4: for every \<open>w\<close> from 50 to 1000 the template of \<open>make_prompt w\<close> contains the
  decimal text of \<open>w\<close>, which is made of digits, has no leading zero and denotes \<open>w\<close>,
  and exactly one placeholder: \<^verbatim>\<open>{text}\<close> occurs once, there is one opening and one
  closing brace, and the only input variable is \<^verbatim>\<open>text\<close>. Equal word counts give equal
  templates. Rendering the template of \<open>make_prompt 300\<close> with the text X gives a string
  that contains X and no \<^verbatim>\<open>{text}\<close>.
\<close>

theorem make_prompt_template:
  assumes "50 \<le> w" and "w \<le> 1000"
  shows "sublist (str_int w) (template (make_prompt w)) \<and>
         set (str_int w) \<subseteq> set ''0123456789'' \<and>
         hd (str_int w) \<noteq> CHR ''0'' \<and>
         int (decimal_value (str_int w)) = w \<and>
         count_occ ''{text}'' (template (make_prompt w)) = 1 \<and>
         count_list (template (make_prompt w)) CHR ''{'' = 1 \<and>
         count_list (template (make_prompt w)) CHR ''}'' = 1 \<and>
         input_variables (make_prompt w) = [''text''] \<and>
         (w' = w \<longrightarrow> make_prompt w' = make_prompt w) \<and>
         sublist ''X'' (final_prompt \<lparr>llm = client, prompt = Some (make_prompt 300)\<rparr>
                          (Some [\<lparr>page_content = ''X''\<rparr>])) \<and>
         \<not> sublist ''{text}'' (final_prompt \<lparr>llm = client, prompt = Some (make_prompt 300)\<rparr>
                          (Some [\<lparr>page_content = ''X''\<rparr>]))"
proof -
  let ?opening = "''Provide a clear, neutral summary in about '' @ str_int w"
  let ?closing = "'' words.\<newline>\<newline>Content:\<newline>{text}\<newline>\<newline>Include key points and conclusions.''"
  have split: "template (make_prompt w) = ?opening @ ?closing"
    by (simp add: make_prompt_def)
  have "template (make_prompt w) =
      ''Provide a clear, neutral summary in about '' @ str_int w @ ?closing"
    by (simp add: make_prompt_def)
  then have 1: "sublist (str_int w) (template (make_prompt w))"
    by (simp only: sublist_appendI)
  from assms have nat: "str_int w = str_nat (nat w)" and pos: "0 < nat w"
    by (simp_all add: str_int_def)
  have d1: "set (str_int w) \<subseteq> set ''0123456789''"
    unfolding nat by (rule str_nat_digits)
  have d2: "hd (str_int w) \<noteq> CHR ''0''"
    unfolding nat using pos by (rule str_nat_no_leading_zero)
  have d3: "int (decimal_value (str_int w)) = w"
    unfolding nat using assms by (simp add: decimal_value_str_nat)
  have open_brace: "CHR ''{'' \<notin> set ?opening" and close_brace: "CHR ''}'' \<notin> set ?opening"
    using str_int_no_brace [of w] by simp_all
  have "count_occ ''{text}'' (?opening @ ?closing) = count_occ ''{text}'' ?closing"
    using open_brace by (rule count_occ_skip)
  also have "\<dots> = 1" by simp
  finally have 2: "count_occ ''{text}'' (template (make_prompt w)) = 1"
    by (simp only: split)
  have "count_list (?opening @ ?closing) CHR ''{'' = count_list ?closing CHR ''{''"
    using open_brace by (rule count_list_skip)
  also have "\<dots> = 1" by simp
  finally have 3: "count_list (template (make_prompt w)) CHR ''{'' = 1"
    by (simp only: split)
  have "count_list (?opening @ ?closing) CHR ''}'' = count_list ?closing CHR ''}''"
    using close_brace by (rule count_list_skip)
  also have "\<dots> = 1" by simp
  finally have 4: "count_list (template (make_prompt w)) CHR ''}'' = 1"
    by (simp only: split)
  have 5: "input_variables (make_prompt w) = [''text'']"
    by (simp add: make_prompt_def)
  have rendered: "final_prompt \<lparr>llm = client, prompt = Some (make_prompt 300)\<rparr>
        (Some [\<lparr>page_content = ''X''\<rparr>]) =
      ''Provide a clear, neutral summary in about 300 words.\<newline>\<newline>Content:\<newline>X\<newline>\<newline>Include key points and conclusions.''"
    by (simp add: final_prompt_def make_prompt_300)
  have 6: "sublist ''X'' (final_prompt \<lparr>llm = client, prompt = Some (make_prompt 300)\<rparr>
        (Some [\<lparr>page_content = ''X''\<rparr>]))"
    unfolding rendered by (simp add: sublist_Cons_right)
  have 7: "\<not> sublist ''{text}'' (final_prompt \<lparr>llm = client, prompt = Some (make_prompt 300)\<rparr>
        (Some [\<lparr>page_content = ''X''\<rparr>]))"
    unfolding rendered by (simp add: sublist_Cons_right)
  have 8: "w' = w \<longrightarrow> make_prompt w' = make_prompt w"
    by simp
  from 1 d1 d2 d3 2 3 4 5 6 7 8 show ?thesis by blast
qed

text \<open>The instances of C4 at 50 and at 300 words, with the template and the rendered prompt.\<close>

theorem make_prompt_template_witness:
  "(50::int) \<le> 50 \<and> (50::int) \<le> 1000 \<and> (50::int) \<le> 300 \<and> (300::int) \<le> 1000 \<and>
   template (make_prompt 50) =
     ''Provide a clear, neutral summary in about 50 words.\<newline>\<newline>Content:\<newline>{text}\<newline>\<newline>Include key points and conclusions.'' \<and>
   sublist ''50'' (template (make_prompt 50)) \<and>
   sublist ''300'' (template (make_prompt 300)) \<and>
   decimal_value ''300'' = 300 \<and>
   count_occ ''{text}'' (template (make_prompt 300)) = 1 \<and>
   final_prompt \<lparr>llm = failing_client, prompt = Some (make_prompt 300)\<rparr>
        (Some [\<lparr>page_content = ''X''\<rparr>]) =
      ''Provide a clear, neutral summary in about 300 words.\<newline>\<newline>Content:\<newline>X\<newline>\<newline>Include key points and conclusions.''"
proof -
  have a: "(50::int) \<le> 300" and b: "(300::int) \<le> 1000"
    and a': "(50::int) \<le> 50" and b': "(50::int) \<le> 1000" by simp_all
  have r: "final_prompt \<lparr>llm = failing_client, prompt = Some (make_prompt 300)\<rparr>
        (Some [\<lparr>page_content = ''X''\<rparr>]) =
      ''Provide a clear, neutral summary in about 300 words.\<newline>\<newline>Content:\<newline>X\<newline>\<newline>Include key points and conclusions.''"
    by (simp add: final_prompt_def make_prompt_300)
  have t: "template (make_prompt 50) =
     ''Provide a clear, neutral summary in about 50 words.\<newline>\<newline>Content:\<newline>{text}\<newline>\<newline>Include key points and conclusions.''"
    by (simp add: make_prompt_def str_int_examples)
  from make_prompt_template [OF a b, where client = failing_client]
  have 1: "sublist ''300'' (template (make_prompt 300))"
    and 2: "int (decimal_value ''300'') = 300"
    and 3: "count_occ ''{text}'' (template (make_prompt 300)) = 1"
    by (simp_all add: str_int_examples)
  from make_prompt_template [OF a' b', where client = failing_client]
  have 4: "sublist ''50'' (template (make_prompt 50))"
    by (simp add: str_int_examples)
  from 2 have v: "decimal_value ''300'' = 300" by linarith
  from a b a' b' r t 1 v 3 4 show ?thesis by blast
qed

subsection \<open>The submit handler\<close>

text \<open>
  Claim C7: with a key and a valid URL, when the content loader returns no documents the
  handler shows \<^verbatim>\<open>No content found.\<close> and stops: no client is built and no chain is
  resolved or run. A fetch that raises takes the other path, the handler of the outer
  \<^verbatim>\<open>try\<close>, which shows the exception's text and not \<^verbatim>\<open>No content found.\<close>
\<close>

theorem no_content_found:
  assumes "submit i" and "strip (groq_api_key i) \<noteq> []" and "validators_url w (url i)"
  shows "(load_url_content w c (url i) = (Inr [], c', fetched) \<longrightarrow>
            main_logic w i c =
              (c', [ValidatorsUrl (url i), StSpinner ''Loading website...''] @ fetched @
                   [StError ''No content found.'']) \<and>
            (\<forall>e\<in>set (snd (main_logic w i c)). \<not> is_pipeline_event e)) \<and>
         (load_url_content w c (url i) = (Inl e, c', fetched) \<longrightarrow>
            main_logic w i c =
              (c', [ValidatorsUrl (url i), StSpinner ''Loading website...''] @ fetched @
                   report_exception i e) \<and>
            StError ''No content found.'' \<notin> set (snd (main_logic w i c)))"
proof (intro conjI impI)
  assume loaded: "load_url_content w c (url i) = (Inr [], c', fetched)"
  with assms show run: "main_logic w i c =
      (c', [ValidatorsUrl (url i), StSpinner ''Loading website...''] @ fetched @
           [StError ''No content found.''])"
    by (simp add: main_logic_def)
  from load_url_content_events [OF loaded] show "\<forall>e\<in>set (snd (main_logic w i c)). \<not> is_pipeline_event e"
    by (simp add: run)
next
  assume failed: "load_url_content w c (url i) = (Inl e, c', fetched)"
  with assms show run: "main_logic w i c =
      (c', [ValidatorsUrl (url i), StSpinner ''Loading website...''] @ fetched @
           report_exception i e)"
    by (simp add: main_logic_def)
  from failed have "fetched = [] \<or> (\<exists>args. fetched = [NetworkFetch args])"
    by (auto simp: load_url_content_def cache_data_def load_url_content_body_def Let_def
        split: option.splits sum.splits)
  then show "StError ''No content found.'' \<notin> set (snd (main_logic w i c))"
    by (auto simp: run report_exception_def)
qed

text \<open>
  The instances of C7 at a loader that finds nothing and at a loader that raises, from
  an empty cache.
\<close>

theorem no_content_found_witness:
  "submit (test_inputs ''gsk_key'') \<and> strip (groq_api_key (test_inputs ''gsk_key'')) \<noteq> [] \<and>
   validators_url (test_world (Inr [])) (url (test_inputs ''gsk_key'')) \<and>
   snd (main_logic (test_world (Inr [])) (test_inputs ''gsk_key'') Map.empty) =
     [ValidatorsUrl ''https://example.com/article'', StSpinner ''Loading website...'',
      NetworkFetch \<lparr>urls = [''https://example.com/article''], ssl_verify = False,
                     headers = [(''User-Agent'', ''Mozilla/5.0'')]\<rparr>,
      StError ''No content found.''] \<and>
   snd (main_logic (test_world (Inl (OtherException ''timed out''))) (test_inputs ''gsk_key'') Map.empty) =
     [ValidatorsUrl ''https://example.com/article'', StSpinner ''Loading website...'',
      NetworkFetch \<lparr>urls = [''https://example.com/article''], ssl_verify = False,
                     headers = [(''User-Agent'', ''Mozilla/5.0'')]\<rparr>,
      StError ''Error: timed out'']"
proof -
  let ?i = "test_inputs ''gsk_key''"
  let ?args = "\<lparr>urls = [''https://example.com/article''], ssl_verify = False,
                     headers = [(''User-Agent'', ''Mozilla/5.0'')]\<rparr>"
  have a: "submit ?i" by (simp add: test_inputs_def)
  have b: "strip (groq_api_key ?i) \<noteq> []"
    by (simp add: test_inputs_def strip_def isspace_def)
  have c1: "validators_url (test_world (Inr [])) (url ?i)"
    by (simp add: test_inputs_def test_world_def)
  have c2: "validators_url (test_world (Inl (OtherException ''timed out''))) (url ?i)"
    by (simp add: test_inputs_def test_world_def)
  have l1: "load_url_content (test_world (Inr [])) Map.empty (url ?i) =
      (Inr [], [url ?i \<mapsto> []], [NetworkFetch ?args])"
    by (simp add: load_url_content_def cache_data_def load_url_content_body_def test_world_def
        test_inputs_def)
  have l2: "load_url_content (test_world (Inl (OtherException ''timed out''))) Map.empty (url ?i) =
      (Inl (OtherException ''timed out''), Map.empty, [NetworkFetch ?args])"
    by (simp add: load_url_content_def cache_data_def load_url_content_body_def test_world_def
        test_inputs_def)
  from no_content_found [OF a b c1, where c = Map.empty and c' = "[url ?i \<mapsto> []]"
      and fetched = "[NetworkFetch ?args]"] l1
  have r1: "main_logic (test_world (Inr [])) ?i Map.empty =
      ([url ?i \<mapsto> []], [ValidatorsUrl (url ?i), StSpinner ''Loading website...''] @
         [NetworkFetch ?args] @ [StError ''No content found.''])"
    by blast
  from no_content_found [OF a b c2, where c = Map.empty and e = "OtherException ''timed out''"
      and c' = Map.empty and fetched = "[NetworkFetch ?args]"] l2
  have r2: "main_logic (test_world (Inl (OtherException ''timed out''))) ?i Map.empty =
      (Map.empty, [ValidatorsUrl (url ?i), StSpinner ''Loading website...''] @
         [NetworkFetch ?args] @ report_exception ?i (OtherException ''timed out''))"
    by blast
  have u: "url ?i = ''https://example.com/article''" by (simp add: test_inputs_def)
  have rep: "report_exception ?i (OtherException ''timed out'') = [StError ''Error: timed out'']"
    by (simp add: report_exception_def test_inputs_def)
  show ?thesis
    using a b c1 by (simp add: r1 r2 u rep)
qed

text \<open>
  Claim C8: when a call of the content loader returns documents, a second call with the
  same URL string is a cache hit: it returns the same documents, does no network fetch
  and leaves the cache as it is. The first call did one fetch when the URL was not in
  the cache and none when it was, so the two calls together fetch once in a session
  that had not loaded the URL before.
\<close>

theorem load_url_content_cached:
  assumes "load_url_content w c u = (Inr docs, c', fetched)"
  shows "load_url_content w c' u = (Inr docs, c', []) \<and>
         (c u = None \<longrightarrow>
            fetched = [NetworkFetch \<lparr>urls = [u], ssl_verify = False,
                                      headers = [(''User-Agent'', ''Mozilla/5.0'')]\<rparr>]) \<and>
         (c u \<noteq> None \<longrightarrow> fetched = [])"
  using assms
  by (auto simp: load_url_content_def cache_data_def load_url_content_body_def Let_def
      split: option.splits sum.splits)

text \<open>The instance of C8 at an empty cache and a loader that finds one document.\<close>

theorem load_url_content_cached_witness:
  "load_url_content (test_world (Inr [\<lparr>page_content = ''Lorem ipsum...''\<rparr>])) Map.empty
       ''https://example.com/article'' =
     (Inr [\<lparr>page_content = ''Lorem ipsum...''\<rparr>],
      [''https://example.com/article'' \<mapsto> [\<lparr>page_content = ''Lorem ipsum...''\<rparr>]],
      [NetworkFetch \<lparr>urls = [''https://example.com/article''], ssl_verify = False,
                     headers = [(''User-Agent'', ''Mozilla/5.0'')]\<rparr>]) \<and>
   load_url_content (test_world (Inr [\<lparr>page_content = ''Lorem ipsum...''\<rparr>]))
       [''https://example.com/article'' \<mapsto> [\<lparr>page_content = ''Lorem ipsum...''\<rparr>]]
       ''https://example.com/article'' =
     (Inr [\<lparr>page_content = ''Lorem ipsum...''\<rparr>],
      [''https://example.com/article'' \<mapsto> [\<lparr>page_content = ''Lorem ipsum...''\<rparr>]], [])"
proof -
  let ?w = "test_world (Inr [\<lparr>page_content = ''Lorem ipsum...''\<rparr>])"
  let ?u = "''https://example.com/article''"
  let ?docs = "[\<lparr>page_content = ''Lorem ipsum...''\<rparr>]"
  have first: "load_url_content ?w Map.empty ?u =
      (Inr ?docs, [?u \<mapsto> ?docs],
       [NetworkFetch \<lparr>urls = [?u], ssl_verify = False,
                      headers = [(''User-Agent'', ''Mozilla/5.0'')]\<rparr>])"
    by (simp add: load_url_content_def cache_data_def load_url_content_body_def test_world_def)
  from load_url_content_cached [OF first] have "load_url_content ?w [?u \<mapsto> ?docs] ?u =
      (Inr ?docs, [?u \<mapsto> ?docs], [])"
    by blast
  with first show ?thesis by blast
qed

text \<open>
  Claim C9: when the form is submitted with an access key made of whitespace only, the
  empty key included, the handler shows the missing-key error and nothing else happens:
  the cache is unchanged and there is no URL validation, no network fetch and no event of
  the summarization, whatever the collaborators and the other inputs are.
\<close>

theorem blank_key_is_absent:
  assumes "submit i" and "\<forall>c\<in>set (groq_api_key i). isspace c"
  shows "main_logic w i c = (c, [StError ''Groq API key is required.'']) \<and>
         (\<forall>e\<in>set (snd (main_logic w i c)).
            \<not> is_validation_event e \<and> \<not> is_fetch_event e \<and> \<not> is_pipeline_event e)"
  using assms by (simp add: main_logic_def strip_blank)

text \<open>The instances of C9 at a key of a space, a tab and a no-break space, and at the empty key.\<close>

theorem blank_key_is_absent_witness:
  "submit (test_inputs [CHR 0x20, CHR 0x09, CHR 0xA0]) \<and>
   groq_api_key (test_inputs [CHR 0x20, CHR 0x09, CHR 0xA0]) = [CHR 0x20, CHR 0x09, CHR 0xA0] \<and>
   isspace (CHR 0x20) \<and> isspace (CHR 0x09) \<and> isspace (CHR 0xA0) \<and>
   main_logic (test_world (Inr [\<lparr>page_content = ''A''\<rparr>]))
       (test_inputs [CHR 0x20, CHR 0x09, CHR 0xA0]) Map.empty =
     (Map.empty, [StError ''Groq API key is required.'']) \<and>
   main_logic (test_world (Inr [\<lparr>page_content = ''A''\<rparr>])) (test_inputs []) Map.empty =
     (Map.empty, [StError ''Groq API key is required.''])"
proof -
  have a: "submit (test_inputs key)" for key
    by (simp add: test_inputs_def)
  have b: "\<forall>c\<in>set (groq_api_key (test_inputs [CHR 0x20, CHR 0x09, CHR 0xA0])). isspace c"
    by (simp add: test_inputs_def isspace_def)
  have b': "\<forall>c\<in>set (groq_api_key (test_inputs [])). isspace c"
    by (simp add: test_inputs_def)
  have k: "groq_api_key (test_inputs [CHR 0x20, CHR 0x09, CHR 0xA0]) = [CHR 0x20, CHR 0x09, CHR 0xA0]"
    by (simp add: test_inputs_def)
  have sp: "isspace (CHR 0x20) \<and> isspace (CHR 0x09) \<and> isspace (CHR 0xA0)"
    by (simp add: isspace_def)
  show ?thesis
    using a k sp blank_key_is_absent [OF a b] blank_key_is_absent [OF a b'] by blast
qed

end
